theory Spec2Isabelle
  imports Complex_Main "HOL-Library.Word" "HOL-Library.Signed_Division"
begin

unbundle bit_operations_syntax

section \<open>Watermarking web handler: a shallow embedding of controller.go\<close>

text \<open>
  The embedding follows \<^verbatim>\<open>controller.go\<close> function by function.  What the file takes
  from outside the repository is kept apart:
  \<^item> the geometry and colour types of Go's \<^verbatim>\<open>image\<close> and \<^verbatim>\<open>image/color\<close> packages, the
    compositor of \<^verbatim>\<open>image/draw\<close>, the base64 encoder and the response writer of \<^verbatim>\<open>net/http\<close>
    are written out as the standard library documents them;
  \<^item> the file system, the bodies of the decoders and encoders, the font rasteriser of \<^verbatim>\<open>gg\<close>,
    the resampler of \<^verbatim>\<open>nfnt/resize\<close> and the template engine are fields of an environment
    record, and every statement holds for all of them.
  A panic is a value: the functions that can panic return \<open>failure + result\<close>.
  Go's \<^verbatim>\<open>int\<close> is modelled by \<open>int\<close> (the one place where its 64 bits matter, the buffer length
  of \<^verbatim>\<open>image.NewRGBA\<close>, is written out), \<^verbatim>\<open>uint8\<close>, \<^verbatim>\<open>uint16\<close>, \<^verbatim>\<open>uint32\<close> and \<^verbatim>\<open>uint\<close> by words or
  bounded naturals, and \<^verbatim>\<open>float64\<close> by \<open>real\<close>: rounding, infinities and NaN are not
  represented, and no statement below depends on them.
\<close>

type_synonym uint8 = "8 word"
type_synonym uint16 = "16 word"
type_synonym uint32 = "32 word"

subsection \<open>Geometry of package image\<close>

record Point =
  X :: int
  Y :: int

record Rectangle =
  Min_pt :: Point
  Max_pt :: Point

definition Pt :: "int \<Rightarrow> int \<Rightarrow> Point" where
  "Pt x y = \<lparr>X = x, Y = y\<rparr>"

text \<open>\<^verbatim>\<open>image.Point{}\<close>, the zero value.\<close>

definition ZP :: Point where
  "ZP = Pt 0 0"

definition Point_Add :: "Point \<Rightarrow> Point \<Rightarrow> Point" where
  "Point_Add p q = \<lparr>X = X p + X q, Y = Y p + Y q\<rparr>"

definition Point_Sub :: "Point \<Rightarrow> Point \<Rightarrow> Point" where
  "Point_Sub p q = \<lparr>X = X p - X q, Y = Y p - Y q\<rparr>"

definition Point_In :: "Point \<Rightarrow> Rectangle \<Rightarrow> bool" where
  "Point_In p r \<longleftrightarrow>
     X (Min_pt r) \<le> X p \<and> X p < X (Max_pt r) \<and> Y (Min_pt r) \<le> Y p \<and> Y p < Y (Max_pt r)"

text \<open>\<^verbatim>\<open>image.ZR\<close>, the zero rectangle.\<close>

definition ZR :: Rectangle where
  "ZR = \<lparr>Min_pt = ZP, Max_pt = ZP\<rparr>"

text \<open>\<^verbatim>\<open>image.Rect\<close> swaps the corners into order.\<close>

definition Rect_of :: "int \<Rightarrow> int \<Rightarrow> int \<Rightarrow> int \<Rightarrow> Rectangle" where
  "Rect_of x0 y0 x1 y1 =
     \<lparr>Min_pt = Pt (min x0 x1) (min y0 y1), Max_pt = Pt (max x0 x1) (max y0 y1)\<rparr>"

definition Dx :: "Rectangle \<Rightarrow> int" where
  "Dx r = X (Max_pt r) - X (Min_pt r)"

definition Dy :: "Rectangle \<Rightarrow> int" where
  "Dy r = Y (Max_pt r) - Y (Min_pt r)"

definition Empty :: "Rectangle \<Rightarrow> bool" where
  "Empty r \<longleftrightarrow> X (Min_pt r) \<ge> X (Max_pt r) \<or> Y (Min_pt r) \<ge> Y (Max_pt r)"

definition Rectangle_Add :: "Rectangle \<Rightarrow> Point \<Rightarrow> Rectangle" where
  "Rectangle_Add r p = \<lparr>Min_pt = Point_Add (Min_pt r) p, Max_pt = Point_Add (Max_pt r) p\<rparr>"

definition Intersect :: "Rectangle \<Rightarrow> Rectangle \<Rightarrow> Rectangle" where
  "Intersect r s =
     (let r' = \<lparr>Min_pt = Pt (max (X (Min_pt r)) (X (Min_pt s))) (max (Y (Min_pt r)) (Y (Min_pt s))),
                Max_pt = Pt (min (X (Max_pt r)) (X (Max_pt s))) (min (Y (Max_pt r)) (Y (Max_pt s)))\<rparr>
      in if Empty r' then ZR else r')"

subsection \<open>Colours and images\<close>

text \<open>
  A colour is known to the compositor through its method \<^verbatim>\<open>RGBA()\<close> only: four
  alpha-premultiplied channels in \<open>[0, 0xffff]\<close>, each returned as a \<^verbatim>\<open>uint32\<close>.  \<^verbatim>\<open>color.RGBA64\<close>
  holds exactly these four values; \<^verbatim>\<open>color.RGBA\<close> is the 8-bit pixel of an \<^verbatim>\<open>*image.RGBA\<close>.
\<close>

datatype RGBA64 = RGBA64 uint16 uint16 uint16 uint16

datatype RGBA = RGBA uint8 uint8 uint8 uint8

text \<open>\<^verbatim>\<open>color.RGBA.RGBA()\<close>: \<^verbatim>\<open>r = uint32(c.R); r |= r << 8\<close>, and so on.\<close>

definition widen :: "uint8 \<Rightarrow> uint16" where
  "widen c = ucast c OR push_bit 8 (ucast c)"

fun RGBA_RGBA :: "RGBA \<Rightarrow> RGBA64" where
  "RGBA_RGBA (RGBA r g b a) = RGBA64 (widen r) (widen g) (widen b) (widen a)"

text \<open>\<^verbatim>\<open>color.RGBAModel.Convert\<close>: \<^verbatim>\<open>uint8(r >> 8)\<close> of every channel.\<close>

definition narrow :: "uint16 \<Rightarrow> uint8" where
  "narrow c = ucast (drop_bit 8 c)"

fun RGBAModel_Convert :: "RGBA64 \<Rightarrow> RGBA" where
  "RGBAModel_Convert (RGBA64 r g b a) = RGBA (narrow r) (narrow g) (narrow b) (narrow a)"

text \<open>\<^verbatim>\<open>color.Alpha{A}.RGBA()\<close> returns \<^verbatim>\<open>a = A; a |= a << 8\<close> in all four channels.\<close>

definition Alpha :: "uint8 \<Rightarrow> RGBA64" where
  "Alpha a = RGBA64 (widen a) (widen a) (widen a) (widen a)"

text \<open>The interface \<^verbatim>\<open>image.Image\<close>: bounds and the colour at a point.\<close>

record Image =
  Bounds :: Rectangle
  At :: "Point \<Rightarrow> RGBA64"

text \<open>
  \<^verbatim>\<open>*image.RGBA\<close>.  The byte slice \<^verbatim>\<open>Pix\<close> is indexed here by the point a pixel belongs to;
  only points inside \<^verbatim>\<open>Rect\<close> are ever written, all others stay at the zero pixel.
\<close>

record image_RGBA =
  Pix :: "Point \<Rightarrow> RGBA"
  Rect :: Rectangle

text \<open>
  \<^verbatim>\<open>image.NewRGBA\<close> panics when the rectangle has a negative side or its buffer length
  \<^verbatim>\<open>4 * Dx * Dy\<close> does not fit an \<^verbatim>\<open>int\<close>.
\<close>

definition NewRGBA :: "Rectangle \<Rightarrow> image_RGBA option" where
  "NewRGBA r =
     (if Dx r < 0 \<or> Dy r < 0 \<or> 4 * Dx r * Dy r > 2 ^ 63 - 1 then None
      else Some \<lparr>Pix = (\<lambda>p. RGBA 0 0 0 0), Rect = r\<rparr>)"

text \<open>An \<^verbatim>\<open>*image.RGBA\<close> seen through the interface (\<^verbatim>\<open>RGBA.At\<close>, \<^verbatim>\<open>RGBA.Bounds\<close>).\<close>

definition RGBA_Image :: "image_RGBA \<Rightarrow> Image" where
  "RGBA_Image im =
     \<lparr>Bounds = Rect im,
      At = (\<lambda>p. if Point_In p (Rect im) then RGBA_RGBA (Pix im p) else RGBA_RGBA (RGBA 0 0 0 0))\<rparr>"

text \<open>\<^verbatim>\<open>&image.Uniform{c}\<close>: one colour everywhere, on practically unbounded bounds.\<close>

definition Uniform :: "RGBA64 \<Rightarrow> Image" where
  "Uniform c =
     \<lparr>Bounds = \<lparr>Min_pt = Pt (- 1000000000) (- 1000000000), Max_pt = Pt 1000000000 1000000000\<rparr>,
      At = (\<lambda>p. c)\<rparr>"

subsection \<open>The compositor of package image/draw, destination *image.RGBA\<close>

datatype Op = Over | Src

text \<open>\<^verbatim>\<open>const m = 1<<16 - 1\<close>.\<close>

definition draw_m :: uint32 where
  "draw_m = 0xffff"

text \<open>
  One channel of \<^verbatim>\<open>drawRGBA\<close>; all arithmetic is \<^verbatim>\<open>uint32\<close>:
  \<^verbatim>\<open>d[0] = uint8((dr*a + sr*ma) / m >> 8)\<close> for \<^verbatim>\<open>Over\<close>,
  \<^verbatim>\<open>d[0] = uint8(sr * ma / m >> 8)\<close> for \<^verbatim>\<open>Src\<close>.
\<close>

definition over_channel :: "uint8 \<Rightarrow> uint16 \<Rightarrow> uint32 \<Rightarrow> uint32 \<Rightarrow> uint8" where
  "over_channel d s a ma = ucast (drop_bit 8 (((ucast d :: uint32) * a + ucast s * ma) div draw_m))"

definition src_channel :: "uint16 \<Rightarrow> uint32 \<Rightarrow> uint8" where
  "src_channel s ma = ucast (drop_bit 8 (((ucast s :: uint32) * ma) div draw_m))"

fun blend :: "Op \<Rightarrow> RGBA \<Rightarrow> RGBA64 \<Rightarrow> uint32 \<Rightarrow> RGBA" where
  "blend Over (RGBA dr dg db da) (RGBA64 sr sg sb sa) ma =
     (let a = (draw_m - ((ucast sa * ma) div draw_m)) * 0x101
      in RGBA (over_channel dr sr a ma) (over_channel dg sg a ma)
              (over_channel db sb a ma) (over_channel da sa a ma))"
| "blend Src (RGBA dr dg db da) (RGBA64 sr sg sb sa) ma =
     RGBA (src_channel sr ma) (src_channel sg ma) (src_channel sb ma) (src_channel sa ma)"

text \<open>The alpha a mask contributes at a point; a nil mask is opaque.\<close>

fun alpha_of :: "RGBA64 \<Rightarrow> uint32" where
  "alpha_of (RGBA64 r g b a) = ucast a"

definition mask_alpha :: "Image option \<Rightarrow> Point \<Rightarrow> uint32" where
  "mask_alpha msk p = (case msk of None \<Rightarrow> draw_m | Some mk \<Rightarrow> alpha_of (At mk p))"

text \<open>
  \<^verbatim>\<open>clip\<close>: the rectangle is cut down to the destination, to the source as aligned by
  \<^verbatim>\<open>sp\<close> and to the mask as aligned by \<^verbatim>\<open>mp\<close>; both points move with its corner.
\<close>

definition clip :: "Rectangle \<Rightarrow> Rectangle \<Rightarrow> Image \<Rightarrow> Point \<Rightarrow> Image option \<Rightarrow> Point
    \<Rightarrow> Rectangle \<times> Point \<times> Point" where
  "clip dst_bounds r src sp msk mp =
     (let orig = Min_pt r;
          r1 = Intersect r dst_bounds;
          r2 = Intersect r1 (Rectangle_Add (Bounds src) (Point_Sub orig sp));
          r3 = (case msk of None \<Rightarrow> r2
                | Some mk \<Rightarrow> Intersect r2 (Rectangle_Add (Bounds mk) (Point_Sub orig mp)));
          dx = X (Min_pt r3) - X orig;
          dy = Y (Min_pt r3) - Y orig
      in if dx = 0 \<and> dy = 0 then (r3, sp, mp)
         else (r3, Point_Add sp (Pt dx dy), Point_Add mp (Pt dx dy)))"

text \<open>
  \<^verbatim>\<open>drawRGBA\<close>, the general loop for an RGBA destination: the pixel at \<open>p\<close> of the clipped
  rectangle is blended with the source pixel at \<open>sp + (p - r.Min)\<close> under the mask alpha at
  \<open>mp + (p - r.Min)\<close>.  The specialised loops of the package compute the same bytes.
\<close>

definition drawRGBA :: "image_RGBA \<Rightarrow> Rectangle \<Rightarrow> Image \<Rightarrow> Point \<Rightarrow> Image option \<Rightarrow> Point
    \<Rightarrow> Op \<Rightarrow> image_RGBA" where
  "drawRGBA dst r src sp msk mp op =
     dst\<lparr>Pix := (\<lambda>p. if Point_In p r
                      then blend op (Pix dst p)
                             (At src (Point_Add sp (Point_Sub p (Min_pt r))))
                             (mask_alpha msk (Point_Add mp (Point_Sub p (Min_pt r))))
                      else Pix dst p)\<rparr>"

definition DrawMask :: "image_RGBA \<Rightarrow> Rectangle \<Rightarrow> Image \<Rightarrow> Point \<Rightarrow> Image option \<Rightarrow> Point
    \<Rightarrow> Op \<Rightarrow> image_RGBA" where
  "DrawMask dst r src sp msk mp op =
     (case clip (Rect dst) r src sp msk mp of
        (r', sp', mp') \<Rightarrow> if Empty r' then dst else drawRGBA dst r' src sp' msk mp' op)"

text \<open>\<^verbatim>\<open>draw.Draw\<close> calls \<^verbatim>\<open>DrawMask\<close> with a nil mask.\<close>

definition Draw :: "image_RGBA \<Rightarrow> Rectangle \<Rightarrow> Image \<Rightarrow> Point \<Rightarrow> Op \<Rightarrow> image_RGBA" where
  "Draw dst r src sp op = DrawMask dst r src sp None ZP op"

subsection \<open>Conversions between floating point and integers\<close>

text \<open>
  A Go conversion from \<^verbatim>\<open>float64\<close> to an integer type drops the fraction (truncation towards
  zero).  When the truncated value is not representable in the target type the result is
  implementation-dependent: the environment supplies it.
\<close>

definition trunc :: "real \<Rightarrow> int" where
  "trunc x = (if 0 \<le> x then \<lfloor>x\<rfloor> else \<lceil>x\<rceil>)"

subsection \<open>The world outside the repository\<close>

datatype InterpolationFunction =
  NearestNeighbor | Bilinear | Bicubic | MitchellNetravali | Lanczos2 | Lanczos3

text \<open>The values passed to the template: the anonymous struct of \<^verbatim>\<open>handleWatermarkedImages\<close>.\<close>

record template_data =
  Image1 :: string
  Image2 :: string

text \<open>
  What \<^verbatim>\<open>DrawStringAnchored\<close> finds in the \<^verbatim>\<open>gg\<close> context when \<^verbatim>\<open>CreateImage\<close> calls it: the
  cleared canvas, the colour, the loaded face, the rotation pushed by \<^verbatim>\<open>RotateAbout\<close>, the
  string, the anchor point and the anchor fractions.
\<close>

record 'f text_call =
  canvas :: image_RGBA
  colour :: "RGBA64 option"
  face :: 'f
  rotate_angle :: real
  rotate_about :: "real \<times> real"
  str :: string
  anchor_at :: "real \<times> real"
  anchor_frac :: "real \<times> real"

text \<open>
  The environment: files by path (\<open>None\<close> when \<^verbatim>\<open>os.Open\<close> fails), the decoders and encoders
  (an encoder yields the bytes it wrote and whether it returned an error), the resampler and
  the rasteriser (\<open>None\<close> when the library call panics, as \<^verbatim>\<open>resize.Resize\<close> does on sizes it
  cannot allocate and the rasteriser on a nil colour), the font loader, the template engine
  (\<^verbatim>\<open>Execute\<close> yields the chunks it wrote, in order, and whether it returned an error), and the
  results of unrepresentable conversions.
\<close>

record ('f, 't) env =
  os_Open :: "string \<Rightarrow> uint8 list option"
  png_decode :: "uint8 list \<Rightarrow> Image option"
  jpeg_Decode :: "uint8 list \<Rightarrow> Image option"
  jpeg_Encode :: "Image \<Rightarrow> uint8 list \<times> bool"
  png_Encode :: "Image \<Rightarrow> uint8 list \<times> bool"
  resize_Resize :: "nat \<Rightarrow> nat \<Rightarrow> Image \<Rightarrow> InterpolationFunction \<Rightarrow> Image option"
  gg_LoadFontFace :: "string \<Rightarrow> real \<Rightarrow> 'f option"
  gg_DrawStringAnchored :: "'f text_call \<Rightarrow> image_RGBA option"
  template_ParseFiles :: "string \<Rightarrow> 't option"
  template_Execute :: "'t \<Rightarrow> template_data \<Rightarrow> string list \<times> bool"
  uint_unrepresentable :: "real \<Rightarrow> nat"
  uint8_unrepresentable :: "real \<Rightarrow> uint8"
  int_unrepresentable :: "real \<Rightarrow> int"

definition uint_of_float64 :: "('f, 't) env \<Rightarrow> real \<Rightarrow> nat" where
  "uint_of_float64 env x =
     (if 0 \<le> trunc x \<and> trunc x < 2 ^ 64 then nat (trunc x) else uint_unrepresentable env x)"

definition uint8_of_float64 :: "('f, 't) env \<Rightarrow> real \<Rightarrow> uint8" where
  "uint8_of_float64 env x =
     (if 0 \<le> trunc x \<and> trunc x < 256 then word_of_int (trunc x) else uint8_unrepresentable env x)"

definition int_of_float64 :: "('f, 't) env \<Rightarrow> real \<Rightarrow> int" where
  "int_of_float64 env x =
     (if - (2 ^ 63) \<le> trunc x \<and> trunc x < 2 ^ 63 then trunc x else int_unrepresentable env x)"

text \<open>
  \<^verbatim>\<open>png.Decode\<close> first reads eight bytes and compares them with the PNG signature; anything
  else is rejected as "not a PNG file" before the chunks are looked at.
\<close>

definition pngHeader :: "uint8 list" where
  "pngHeader = [0x89, 0x50, 0x4E, 0x47, 0x0D, 0x0A, 0x1A, 0x0A]"

definition png_Decode :: "('f, 't) env \<Rightarrow> uint8 list \<Rightarrow> Image option" where
  "png_Decode env bs = (if take 8 bs = pngHeader then png_decode env bs else None)"

text \<open>
  \<^verbatim>\<open>image.Decode\<close> picks the decoder by the leading bytes among the registered formats.
  \<^verbatim>\<open>controller.go\<close> registers two by its imports: \<^verbatim>\<open>image/jpeg\<close> (magic \<^verbatim>\<open>ff d8\<close>) and
  \<^verbatim>\<open>image/png\<close> (the PNG signature).  No match is \<^verbatim>\<open>image.ErrFormat\<close>.
\<close>

definition jpegMagic :: "uint8 list" where
  "jpegMagic = [0xFF, 0xD8]"

definition image_Decode :: "('f, 't) env \<Rightarrow> uint8 list \<Rightarrow> Image option" where
  "image_Decode env bs =
     (if take 2 bs = jpegMagic then jpeg_Decode env bs
      else if take 8 bs = pngHeader then png_Decode env bs
      else None)"

subsection \<open>The watermark types of controller.go\<close>

record BaseWatermark =
  Opacity :: real
  Color :: "RGBA64 option"
  Font :: string
  Size :: real
  Rotate :: real

record Watermark = BaseWatermark +
  Path :: string
  Scale :: real

record TextWatermark = BaseWatermark +
  Text :: string

text \<open>
  The ways a call can panic: the three failure kinds the code raises itself, with the path
  concerned, and a panic inside a library call, with the name of the call.
\<close>

datatype failure =
  ResourceNotFound string
  | DecodeFailure string
  | FontLoadFailure string
  | LibraryPanic string

subsection \<open>CreateImage\<close>

text \<open>Line 50: \<^verbatim>\<open>angle := -t.Rotate * (3.14 / 180)\<close>.\<close>

definition CreateImage_angle :: "'a TextWatermark_scheme \<Rightarrow> real" where
  "CreateImage_angle t = - Rotate t * (3.14 / 180)"

text \<open>
  \<^verbatim>\<open>gg.NewContext\<close> allocates the canvas with \<^verbatim>\<open>image.NewRGBA(image.Rect(0, 0, w, h))\<close>;
  \<^verbatim>\<open>SetRGBA(1, 1, 1, 0)\<close> and \<^verbatim>\<open>Clear\<close> fill it with the premultiplied transparent colour under
  \<^verbatim>\<open>draw.Src\<close>.  \<^verbatim>\<open>Push\<close> and \<^verbatim>\<open>Pop\<close> bracket the rotation; the canvas is shared, so what was drawn
  stays.
\<close>

definition CreateImage :: "('f, 't) env \<Rightarrow> 'a TextWatermark_scheme \<Rightarrow> real \<Rightarrow> real
    \<Rightarrow> failure + image_RGBA" where
  "CreateImage env t width height =
     (case NewRGBA (Rect_of 0 0 (int_of_float64 env width) (int_of_float64 env height)) of
        None \<Rightarrow> Inl (LibraryPanic ''image.NewRGBA'')
      | Some im \<Rightarrow>
         (let dc = Draw im (Rect im) (Uniform (RGBA64 0 0 0 0)) ZP Src
          in case gg_LoadFontFace env (Font t) (Size t) of
               None \<Rightarrow> Inl (FontLoadFailure (Font t))
             | Some fnt \<Rightarrow>
                (let angle = CreateImage_angle t
                 in case gg_DrawStringAnchored env
                          \<lparr>canvas = dc, colour = Color t, face = fnt,
                           rotate_angle = angle, rotate_about = (width / 2, height / 2),
                           str = Text t, anchor_at = (width / 2, height / 2),
                           anchor_frac = (0.5, 0.5)\<rparr> of
                      None \<Rightarrow> Inl (LibraryPanic ''gg.DrawStringAnchored'')
                    | Some im' \<Rightarrow> Inr im')))"

subsection \<open>ApplyToImage\<close>

definition ApplyToImage :: "('f, 't) env \<Rightarrow> 'a Watermark_scheme \<Rightarrow> Image
    \<Rightarrow> failure + image_RGBA" where
  "ApplyToImage env w baseImage =
     (let bounds = Bounds baseImage
      in case NewRGBA bounds of
           None \<Rightarrow> Inl (LibraryPanic ''image.NewRGBA'')
         | Some new \<Rightarrow>
            (let result = Draw new bounds baseImage ZP Over
             in if Path w \<noteq> []
                then (case os_Open env (Path w) of
                        None \<Rightarrow> Inl (ResourceNotFound (Path w))
                      | Some watermarkFile \<Rightarrow>
                         (case png_Decode env watermarkFile of
                            None \<Rightarrow> Inl (DecodeFailure (Path w))
                          | Some decoded \<Rightarrow>
                             (case (if Scale w \<noteq> 1
                                    then (let wb = Bounds decoded;
                                              newWidth = uint_of_float64 env (real_of_int (Dx wb) * Scale w);
                                              newHeight = uint_of_float64 env (real_of_int (Dy wb) * Scale w)
                                          in resize_Resize env newWidth newHeight decoded Bilinear)
                                    else Some decoded) of
                                None \<Rightarrow> Inl (LibraryPanic ''resize.Resize'')
                              | Some watermarkImage \<Rightarrow>
                                 (let offset = \<lparr>X = (Dx bounds - Dx (Bounds watermarkImage)) sdiv 2,
                                                Y = (Dy bounds - Dy (Bounds watermarkImage)) sdiv 2\<rparr>
                                  in Inr (Draw result (Rectangle_Add (Bounds watermarkImage) offset)
                                            watermarkImage ZP Over)))))
                else Inr result))"

subsection \<open>CreateWatermarkedImage\<close>

definition CreateWatermarkedImage :: "('f, 't) env \<Rightarrow> 'a TextWatermark_scheme \<Rightarrow> Image
    \<Rightarrow> failure + image_RGBA" where
  "CreateWatermarkedImage env w baseImage =
     (case CreateImage env w (real_of_int (Dx (Bounds baseImage)))
                             (real_of_int (Dy (Bounds baseImage))) of
        Inl e \<Rightarrow> Inl e
      | Inr textImage \<Rightarrow>
         (case NewRGBA (Bounds baseImage) of
            None \<Rightarrow> Inl (LibraryPanic ''image.NewRGBA'')
          | Some new \<Rightarrow>
             (let result = Draw new (Bounds baseImage) baseImage ZP Over
              in Inr (DrawMask result (Rect result) (RGBA_Image textImage) ZP
                        (Some (Uniform (Alpha (uint8_of_float64 env (255 * Opacity w))))) ZP Over))))"

subsection \<open>encodeImageToBase64\<close>

text \<open>
  \<^verbatim>\<open>base64.StdEncoding.EncodeToString\<close>: three bytes give four characters of the standard
  alphabet; a rest of one or two bytes is padded with \<^verbatim>\<open>=\<close>.
\<close>

definition encodeStd :: string where
  "encodeStd = ''ABCDEFGHIJKLMNOPQRSTUVWXYZabcdefghijklmnopqrstuvwxyz0123456789+/''"

definition enc_char :: "64 word \<Rightarrow> char" where
  "enc_char v = encodeStd ! unat (v AND 0x3F)"

fun EncodeToString :: "uint8 list \<Rightarrow> string" where
  "EncodeToString [] = []"
| "EncodeToString [a] =
     (let val = push_bit 16 (ucast a)
      in [enc_char (drop_bit 18 val), enc_char (drop_bit 12 val), CHR ''='', CHR ''=''])"
| "EncodeToString [a, b] =
     (let val = push_bit 16 (ucast a) OR push_bit 8 (ucast b)
      in [enc_char (drop_bit 18 val), enc_char (drop_bit 12 val), enc_char (drop_bit 6 val),
          CHR ''=''])"
| "EncodeToString (a # b # c # rest) =
     (let val = push_bit 16 (ucast a) OR push_bit 8 (ucast b) OR ucast c
      in [enc_char (drop_bit 18 val), enc_char (drop_bit 12 val), enc_char (drop_bit 6 val),
          enc_char val] @ EncodeToString rest)"

text \<open>
  Lines 108 to 114: the buffer after the \<^verbatim>\<open>switch\<close>.  Both encoders return an error value;
  neither call looks at it, and what the encoder wrote stays in the buffer.
\<close>

definition encodeImage_buff :: "('f, 't) env \<Rightarrow> Image \<Rightarrow> string \<Rightarrow> uint8 list" where
  "encodeImage_buff env img imgType =
     (if imgType = ''jpeg'' then fst (jpeg_Encode env img)
      else if imgType = ''png'' then fst (png_Encode env img)
      else [])"

definition encodeImageToBase64 :: "('f, 't) env \<Rightarrow> Image \<Rightarrow> string \<Rightarrow> string" where
  "encodeImageToBase64 env img imgType = EncodeToString (encodeImage_buff env img imgType)"

subsection \<open>The response writer of net/http\<close>

text \<open>
  An \<^verbatim>\<open>http.ResponseWriter\<close>: the header map the handler edits, the status line once it is
  written together with the header as it stood then, and the body.  The first \<^verbatim>\<open>Write\<close>
  without a status writes \<^verbatim>\<open>200\<close>; a second \<^verbatim>\<open>WriteHeader\<close> is ignored.
\<close>

record ResponseWriter =
  Header :: "(string \<times> string) list"
  wroteHeader :: "(nat \<times> (string \<times> string) list) option"
  body :: string

definition Header_Set :: "string \<Rightarrow> string \<Rightarrow> ResponseWriter \<Rightarrow> ResponseWriter" where
  "Header_Set k v w = w\<lparr>Header := (k, v) # filter (\<lambda>kv. fst kv \<noteq> k) (Header w)\<rparr>"

definition WriteHeader :: "nat \<Rightarrow> ResponseWriter \<Rightarrow> ResponseWriter" where
  "WriteHeader code w =
     (case wroteHeader w of None \<Rightarrow> w\<lparr>wroteHeader := Some (code, Header w)\<rparr> | Some _ \<Rightarrow> w)"

definition Write :: "string \<Rightarrow> ResponseWriter \<Rightarrow> ResponseWriter" where
  "Write bs w =
     (let w' = (case wroteHeader w of None \<Rightarrow> WriteHeader 200 w | Some _ \<Rightarrow> w)
      in w'\<lparr>body := body w' @ bs\<rparr>)"

text \<open>
  \<^verbatim>\<open>http.Error\<close> sets two header fields, writes the status and prints the message and a
  newline.
\<close>

definition http_Error :: "string \<Rightarrow> nat \<Rightarrow> ResponseWriter \<Rightarrow> ResponseWriter" where
  "http_Error msg code w =
     Write (msg @ [CHR 0x0A])
       (WriteHeader code
         (Header_Set ''X-Content-Type-Options'' ''nosniff''
           (Header_Set ''Content-Type'' ''text/plain; charset=utf-8'' w)))"

definition StatusInternalServerError :: nat where
  "StatusInternalServerError = 500"

text \<open>The status the client gets: the one written, or \<^verbatim>\<open>200\<close> when the handler wrote none.\<close>

definition status_sent :: "ResponseWriter \<Rightarrow> nat" where
  "status_sent w = (case wroteHeader w of None \<Rightarrow> 200 | Some (code, _) \<Rightarrow> code)"

subsection \<open>handleWatermarkedImages\<close>

text \<open>The two watermarks the handler builds (lines 121 to 127 and 142 to 151).\<close>

definition imageWatermark :: Watermark where
  "imageWatermark =
     \<lparr>Opacity = 0.6, Color = None, Font = [], Size = 0, Rotate = 0,
      Path = ''FG-copyright-mini.png'', Scale = 1.0\<rparr>"

text \<open>The text is the UTF-8 string of line 150, byte by byte.\<close>

definition textWatermark :: TextWatermark where
  "textWatermark =
     \<lparr>Opacity = 0.6, Color = Some (RGBA_RGBA (RGBA 239 250 23 255)),
      Font = ''Nunito-Medium.ttf'', Size = 35, Rotate = - 29.5,
      Text = map char_of
        [208, 191, 209, 143, 209, 130, 208, 176, 209, 143, 208, 191, 208, 181, 209, 128, 208,
         181, 208, 180, 208, 176, 209, 135, 208, 176, 46, 209, 128, 209, 132 :: nat]\<rparr>"

text \<open>
  Lines 169 to 189, the end of the handler: the template is parsed and executed straight into
  the response writer; either failure is answered with \<^verbatim>\<open>http.Error\<close>.
\<close>

definition render_template :: "('f, 't) env \<Rightarrow> string \<Rightarrow> string \<Rightarrow> ResponseWriter
    \<Rightarrow> ResponseWriter" where
  "render_template env b1 b2 w =
     (case template_ParseFiles env ''templates/images.html'' of
        None \<Rightarrow> http_Error ''Error loading template'' StatusInternalServerError w
      | Some tmpl \<Rightarrow>
         (let data = \<lparr>Image1 = b1, Image2 = b2\<rparr>;
              w1 = Header_Set ''Content-Type'' ''text/html; charset=utf-8'' w
          in case template_Execute env tmpl data of
               (chunks, err) \<Rightarrow>
                 (let w2 = fold Write chunks w1
                  in if err
                     then http_Error ''Error executing template'' StatusInternalServerError w2
                     else w2)))"

text \<open>
  The handler.  The request is not looked at.  A panic leaves through \<open>Inl\<close>; \<open>Inr\<close> is the
  response writer as it stands when the handler returns.
\<close>

definition handleWatermarkedImages :: "('f, 't) env \<Rightarrow> ResponseWriter
    \<Rightarrow> failure + ResponseWriter" where
  "handleWatermarkedImages env w =
     (case os_Open env ''image.jpg'' of
        None \<Rightarrow> Inl (ResourceNotFound ''image.jpg'')
      | Some srcImgFile1 \<Rightarrow>
     (case image_Decode env srcImgFile1 of
        None \<Rightarrow> Inl (DecodeFailure ''image.jpg'')
      | Some baseImage1 \<Rightarrow>
     (case ApplyToImage env imageWatermark baseImage1 of
        Inl e \<Rightarrow> Inl e
      | Inr watermarkedImage1 \<Rightarrow>
     (case os_Open env ''zerkalo-ozera.jpg'' of
        None \<Rightarrow> Inl (ResourceNotFound ''zerkalo-ozera.jpg'')
      | Some srcImgFile2 \<Rightarrow>
     (case image_Decode env srcImgFile2 of
        None \<Rightarrow> Inl (DecodeFailure ''zerkalo-ozera.jpg'')
      | Some baseImage2 \<Rightarrow>
     (case CreateWatermarkedImage env textWatermark baseImage2 of
        Inl e \<Rightarrow> Inl e
      | Inr watermarkedImage2 \<Rightarrow>
         (let imageWithWatermarkBase64_1 =
                encodeImageToBase64 env (RGBA_Image watermarkedImage1) ''jpeg'';
              imageWithWatermarkBase64_2 =
                encodeImageToBase64 env (RGBA_Image watermarkedImage2) ''jpeg''
          in Inr (render_template env imageWithWatermarkBase64_1 imageWithWatermarkBase64_2
                    w))))))))"

subsection \<open>Notions the statements below are phrased with\<close>

text \<open>
  A raster as the decoders produce it: a width by height grid whose bounds start at the
  origin, with sides that fit Go's 64-bit \<^verbatim>\<open>int\<close> and a pixel buffer that can be allocated.
\<close>

definition raster :: "Image \<Rightarrow> bool" where
  "raster img \<longleftrightarrow>
     Min_pt (Bounds img) = ZP \<and>
     0 \<le> Dx (Bounds img) \<and> Dx (Bounds img) < 2 ^ 63 \<and>
     0 \<le> Dy (Bounds img) \<and> Dy (Bounds img) < 2 ^ 63 \<and>
     4 * Dx (Bounds img) * Dy (Bounds img) \<le> 2 ^ 63 - 1"

text \<open>
  The image itself as an \<^verbatim>\<open>*image.RGBA\<close>: same bounds, every pixel inside them converted by
  \<^verbatim>\<open>color.RGBAModel\<close>, nothing outside.
\<close>

definition RGBA_copy :: "Image \<Rightarrow> image_RGBA" where
  "RGBA_copy img =
     \<lparr>Pix = (\<lambda>p. if Point_In p (Bounds img) then RGBAModel_Convert (At img p) else RGBA 0 0 0 0),
      Rect = Bounds img\<rparr>"

text \<open>The pixel of a returned image at a point; none after a panic.\<close>

definition pixel_at :: "failure + image_RGBA \<Rightarrow> Point \<Rightarrow> RGBA option" where
  "pixel_at r p = (case r of Inl e \<Rightarrow> None | Inr im \<Rightarrow> Some (Pix im p))"

text \<open>The points of the destination that a call of \<^verbatim>\<open>DrawMask\<close> writes.\<close>

definition drawn :: "Rectangle \<Rightarrow> Rectangle \<Rightarrow> Image \<Rightarrow> Point \<Rightarrow> Image option \<Rightarrow> Point
    \<Rightarrow> Point \<Rightarrow> bool" where
  "drawn d r src sp msk mp p \<longleftrightarrow>
     Point_In p r \<and> Point_In p d \<and>
     Point_In (Point_Add sp (Point_Sub p (Min_pt r))) (Bounds src) \<and>
     (case msk of None \<Rightarrow> True
      | Some mk \<Rightarrow> Point_In (Point_Add mp (Point_Sub p (Min_pt r))) (Bounds mk))"

subsection \<open>Sample inputs\<close>

text \<open>An 800 by 600 base, opaque blue, and a 100 by 100 mark, opaque red.\<close>

definition blue_base :: Image where
  "blue_base = \<lparr>Bounds = Rect_of 0 0 800 600, At = (\<lambda>p. RGBA64 0 0 0xffff 0xffff)\<rparr>"

definition red_mark :: Image where
  "red_mark = \<lparr>Bounds = Rect_of 0 0 100 100, At = (\<lambda>p. RGBA64 0xffff 0 0 0xffff)\<rparr>"

text \<open>
  A small world: the three files of the handler exist, the mark behind a PNG signature and
  the photographs behind a JPEG marker; the JPEG encoder fails after three bytes; the
  resampler only changes the bounds; the rasteriser paints the whole canvas in the text
  colour of the handler.  Whether the font loads, whether the template parses and what its
  execution writes are left open.
\<close>

definition sample_env :: "bool \<Rightarrow> bool \<Rightarrow> string list \<times> bool \<Rightarrow> (unit, unit) env" where
  "sample_env font_ok tmpl_ok exec =
     \<lparr>os_Open = (\<lambda>p. if p = ''FG-copyright-mini.png'' then Some pngHeader
                      else if p = ''image.jpg'' \<or> p = ''zerkalo-ozera.jpg'' then Some jpegMagic
                      else None),
      png_decode = (\<lambda>bs. Some red_mark),
      jpeg_Decode = (\<lambda>bs. Some blue_base),
      jpeg_Encode = (\<lambda>img. ([0xFF, 0xD8, 0xFF], True)),
      png_Encode = (\<lambda>img. (pngHeader, False)),
      resize_Resize = (\<lambda>w h img interp. Some (img\<lparr>Bounds := Rect_of 0 0 (int w) (int h)\<rparr>)),
      gg_LoadFontFace = (\<lambda>path points. if font_ok then Some () else None),
      gg_DrawStringAnchored =
        (\<lambda>call. Some ((canvas call)
           \<lparr>Pix := (\<lambda>p. if Point_In p (Rect (canvas call)) then RGBA 239 250 23 255
                          else Pix (canvas call) p)\<rparr>)),
      template_ParseFiles = (\<lambda>path. if tmpl_ok then Some () else None),
      template_Execute = (\<lambda>tmpl data. exec),
      uint_unrepresentable = (\<lambda>x. 0),
      uint8_unrepresentable = (\<lambda>x. 0),
      int_unrepresentable = (\<lambda>x. 0)\<rparr>"



definition new_response :: ResponseWriter where
  "new_response = \<lparr>Header = [], wroteHeader = None, body = []\<rparr>"

section \<open>Facts about words, pixels and the compositor\<close>

lemma cos_sum10:
  "(\<Sum>m<10. cos_coeff m * (x::real) ^ m) = 1 - x^2/2 + x^4/24 - x^6/720 + x^8/40320"
  by (simp add: cos_coeff_def lessThan_nat_numeral sum.lessThan_Suc fact_numeral)

lemma cos_15705_pos: "0 < cos (15705 / 10000 :: real)"
proof -
  let ?x = "15705 / 10000 :: real"
  obtain t where t: "cos ?x = (\<Sum>m<10. cos_coeff m * ?x ^ m) + (cos (t + 1/2 * real (10::nat) * pi) / fact 10) * ?x ^ 10"
    using Maclaurin_cos_expansion2 [of ?x 10] by auto
  have "- 1 \<le> cos (t + 1/2 * real (10::nat) * pi)" by (rule cos_ge_minus_one)
  then have "- (?x ^ 10 / fact 10) \<le> (cos (t + 1/2 * real (10::nat) * pi) / fact 10) * ?x ^ 10"
    by (simp add: field_simps fact_numeral)
  moreover have "0 < (\<Sum>m<10. cos_coeff m * ?x ^ m) - ?x ^ 10 / fact 10"
    unfolding cos_sum10 by (simp add: fact_numeral power_divide)
  ultimately show ?thesis using t by linarith
qed

lemma pi_gt_3141: "3.141 < pi"
proof (rule ccontr)
  assume "\<not> 3.141 < pi"
  then have le: "pi / 2 \<le> 15705 / 10000" by simp
  have "cos (15705 / 10000) \<le> cos (pi / 2)"
    using le pi_ge_two by (intro cos_monotone_0_pi_le) auto
  with cos_15705_pos show False by simp
qed

lemma Point_In_ZR: "\<not> Point_In p ZR"
  by (simp add: Point_In_def ZR_def ZP_def Pt_def)

lemma Point_In_Empty: "Empty r \<Longrightarrow> \<not> Point_In p r"
  by (auto simp add: Empty_def Point_In_def)

lemma Point_In_Intersect: "Point_In p (Intersect r s) \<longleftrightarrow> Point_In p r \<and> Point_In p s"
proof -
  let ?r = "\<lparr>Min_pt = Pt (max (X (Min_pt r)) (X (Min_pt s))) (max (Y (Min_pt r)) (Y (Min_pt s))),
            Max_pt = Pt (min (X (Max_pt r)) (X (Max_pt s))) (min (Y (Max_pt r)) (Y (Max_pt s)))\<rparr>"
  have a: "Point_In p ?r \<longleftrightarrow> Point_In p r \<and> Point_In p s"
    by (auto simp add: Point_In_def Pt_def)
  show ?thesis
  proof (cases "Empty ?r")
    case True
    then show ?thesis
      using a Point_In_Empty [of ?r p] by (simp add: Intersect_def Point_In_ZR)
  next
    case False
    then show ?thesis using a by (simp add: Intersect_def)
  qed
qed

lemma Point_In_Rectangle_Add:
  "Point_In p (Rectangle_Add r q) \<longleftrightarrow> Point_In (Point_Sub p q) r"
  by (auto simp add: Rectangle_Add_def Point_In_def Point_Add_def Point_Sub_def)

lemma Rect_DrawMask: "Rect (DrawMask dst r src sp msk mp op) = Rect dst"
  by (simp add: DrawMask_def drawRGBA_def split: prod.splits)

lemma Rect_Draw: "Rect (Draw dst r src sp op) = Rect dst"
  by (simp add: Draw_def Rect_DrawMask)

lemma point_shift: "Point_Sub p (Point_Sub q sp) = Point_Add sp (Point_Sub p q)"
  by (simp add: Point_Sub_def Point_Add_def)

lemma clip_fst:
  "fst (clip d r src sp msk mp) =
     (case msk of
        None \<Rightarrow> Intersect (Intersect r d) (Rectangle_Add (Bounds src) (Point_Sub (Min_pt r) sp))
      | Some mk \<Rightarrow> Intersect (Intersect (Intersect r d) (Rectangle_Add (Bounds src) (Point_Sub (Min_pt r) sp)))
                    (Rectangle_Add (Bounds mk) (Point_Sub (Min_pt r) mp)))"
  by (simp add: clip_def Let_def split: option.splits)

lemma clip_In: "Point_In p (fst (clip d r src sp msk mp)) \<longleftrightarrow> drawn d r src sp msk mp p"
  by (cases msk)
     (auto simp add: clip_fst Point_In_Intersect Point_In_Rectangle_Add point_shift drawn_def)

lemma clip_snd:
  "snd (clip d r src sp msk mp) =
     (Point_Add sp (Point_Sub (Min_pt (fst (clip d r src sp msk mp))) (Min_pt r)),
      Point_Add mp (Point_Sub (Min_pt (fst (clip d r src sp msk mp))) (Min_pt r)))"
  by (simp add: clip_def Let_def Point_Add_def Point_Sub_def Pt_def)

lemma shift_again:
  "Point_Add (Point_Add sp (Point_Sub m q)) (Point_Sub p m) = Point_Add sp (Point_Sub p q)"
  by (simp add: Point_Add_def Point_Sub_def)

lemma Pix_DrawMask:
  "Pix (DrawMask dst r src sp msk mp op) p =
     (if drawn (Rect dst) r src sp msk mp p
      then blend op (Pix dst p) (At src (Point_Add sp (Point_Sub p (Min_pt r))))
             (mask_alpha msk (Point_Add mp (Point_Sub p (Min_pt r))))
      else Pix dst p)"
proof -
  obtain r' sp' mp' where c: "clip (Rect dst) r src sp msk mp = (r', sp', mp')"
    by (cases "clip (Rect dst) r src sp msk mp") auto
  have i: "Point_In p r' \<longleftrightarrow> drawn (Rect dst) r src sp msk mp p"
    using clip_In [of p "Rect dst" r src sp msk mp] by (simp add: c)
  have s: "sp' = Point_Add sp (Point_Sub (Min_pt r') (Min_pt r))"
          "mp' = Point_Add mp (Point_Sub (Min_pt r') (Min_pt r))"
    using clip_snd [of "Rect dst" r src sp msk mp] by (simp_all add: c)
  show ?thesis
  proof (cases "Empty r'")
    case True
    then show ?thesis using i Point_In_Empty [of r' p] by (simp add: DrawMask_def c)
  next
    case False
    then show ?thesis using i
      by (simp add: DrawMask_def c drawRGBA_def s shift_again)
  qed
qed

lemma narrow_widen: "narrow (widen c) = c"
  unfolding narrow_def widen_def
  by (rule bit_word_eqI) (auto simp add: bit_simps dest: bit_imp_le_length)

lemma unat_lt16: "unat (s :: uint16) < 65536"
  using unsigned_less [of s, where ?'a = nat] by simp

lemma unat_lt8: "unat (s :: uint8) < 256"
  using unsigned_less [of s, where ?'a = nat] by simp

lemma unat_ucast16: "unat (ucast (s :: uint16) :: uint32) = unat s"
  using unat_lt16 [of s] by (simp add: unsigned_ucast_eq take_bit_nat_eq_self)

lemma unat_ucast8: "unat (ucast (s :: uint8) :: uint32) = unat s"
  using unat_lt8 [of s] by (simp add: unsigned_ucast_eq take_bit_nat_eq_self)

lemma mul_m_div_m: "((ucast (s :: uint16) :: uint32) * 65535) div 65535 = ucast s"
proof -
  have lt: "unat s < 65536" by (rule unat_lt16)
  have "unat ((ucast s :: uint32) * 65535) = unat s * 65535"
    using lt by (simp add: unat_word_ariths unat_ucast16)
  then have "unat (((ucast s :: uint32) * 65535) div 65535) = unat (ucast s :: uint32)"
    by (simp add: unat_div unat_ucast16)
  then show ?thesis by (simp only: word_unat_eq_iff)
qed

lemma copy_channel: "over_channel 0 s a draw_m = narrow s"
  unfolding over_channel_def narrow_def draw_m_def
  apply (simp add: mul_m_div_m)
  apply (rule bit_word_eqI)
  apply (auto simp add: bit_simps)
  done

lemma mul_keep: "((ucast (d :: uint8) :: uint32) * 16842495) div 65535 = ucast d * 257"
proof -
  have lt: "unat d < 256" by (rule unat_lt8)
  have a: "unat ((ucast d :: uint32) * 16842495) = unat d * 16842495"
    using lt by (simp add: unat_word_ariths unat_ucast8)
  have b: "unat ((ucast d :: uint32) * 257) = unat d * 257"
    using lt by (simp add: unat_word_ariths unat_ucast8)
  have "unat (((ucast d :: uint32) * 16842495) div 65535) = unat ((ucast d :: uint32) * 257)"
    by (simp add: unat_div a b)
  then show ?thesis by (simp only: word_unat_eq_iff)
qed

lemma drop_257: "ucast (drop_bit 8 ((ucast (d :: uint8) :: uint32) * 257)) = d"
proof -
  have lt: "unat d < 256" by (rule unat_lt8)
  have b: "unat ((ucast d :: uint32) * 257) = unat d * 257"
    using lt by (simp add: unat_word_ariths unat_ucast8)
  have "unat (drop_bit 8 ((ucast d :: uint32) * 257)) = unat d * 257 div 256"
    by (simp add: drop_bit_eq_div unat_div b)
  also have "\<dots> = unat d" using lt by simp
  finally have c: "unat (drop_bit 8 ((ucast d :: uint32) * 257)) = unat d" .
  have "unat (ucast (drop_bit 8 ((ucast d :: uint32) * 257)) :: uint8) = unat d"
    using lt by (simp add: unsigned_ucast_eq c take_bit_nat_eq_self)
  then show ?thesis by (simp only: word_unat_eq_iff)
qed

lemma keep_channel: "over_channel d s (draw_m * 0x101) 0 = d"
  unfolding over_channel_def draw_m_def
  by (simp add: mul_keep drop_257)

lemma blend_Over_zero_dst: "blend Over (RGBA 0 0 0 0) c draw_m = RGBAModel_Convert c"
  by (cases c) (simp add: copy_channel)

lemma blend_Over_zero_mask: "blend Over d c 0 = d"
  using keep_channel by (cases d; cases c) (simp add: Let_def)

lemma Point_shift_ZP: "Point_Add ZP (Point_Sub p ZP) = p"
  by (simp add: Point_Add_def Point_Sub_def ZP_def Pt_def)

lemma NewRGBA_raster:
  "raster img \<Longrightarrow> NewRGBA (Bounds img) = Some \<lparr>Pix = (\<lambda>p. RGBA 0 0 0 0), Rect = Bounds img\<rparr>"
  by (simp add: raster_def NewRGBA_def)

lemma Draw_copy:
  assumes "Min_pt (Bounds img) = ZP"
  shows "Draw \<lparr>Pix = (\<lambda>p. RGBA 0 0 0 0), Rect = Bounds img\<rparr> (Bounds img) img ZP Over = RGBA_copy img"
proof -
  let ?new = "\<lparr>Pix = (\<lambda>p. RGBA 0 0 0 0), Rect = Bounds img\<rparr>"
  have "Pix (Draw ?new (Bounds img) img ZP Over) p = Pix (RGBA_copy img) p" for p
    using assms
    by (simp add: Draw_def Pix_DrawMask drawn_def Point_shift_ZP blend_Over_zero_dst
          mask_alpha_def RGBA_copy_def)
  then have "Pix (Draw ?new (Bounds img) img ZP Over) = Pix (RGBA_copy img)" by (rule ext)
  moreover have "Rect (Draw ?new (Bounds img) img ZP Over) = Rect (RGBA_copy img)"
    by (simp add: Rect_Draw RGBA_copy_def)
  ultimately show ?thesis by (rule image_RGBA.equality) simp
qed

lemma DrawMask_transparent:
  "DrawMask dst r src sp (Some (Uniform (Alpha 0))) mp Over = dst"
proof -
  have "widen 0 = 0" by (simp add: widen_def)
  then have "Pix (DrawMask dst r src sp (Some (Uniform (Alpha 0))) mp Over) p = Pix dst p" for p
    by (simp add: Pix_DrawMask mask_alpha_def Uniform_def Alpha_def blend_Over_zero_mask)
  then have "Pix (DrawMask dst r src sp (Some (Uniform (Alpha 0))) mp Over) = Pix dst" by (rule ext)
  moreover have "Rect (DrawMask dst r src sp (Some (Uniform (Alpha 0))) mp Over) = Rect dst"
    by (rule Rect_DrawMask)
  ultimately show ?thesis by (rule image_RGBA.equality) simp
qed

lemma raster_Min: "raster img \<Longrightarrow> Min_pt (Bounds img) = ZP"
  by (simp add: raster_def)

lemma trunc_of_int: "trunc (real_of_int n) = n"
  by (simp add: trunc_def)

lemma int_of_float64_of_int:
  "- (2 ^ 63) \<le> n \<Longrightarrow> n < 2 ^ 63 \<Longrightarrow> int_of_float64 env (real_of_int n) = n"
  by (simp add: int_of_float64_def trunc_of_int)

lemma NewRGBA_Rect_of:
  "0 \<le> a \<Longrightarrow> 0 \<le> b \<Longrightarrow> 4 * a * b \<le> 2 ^ 63 - 1 \<Longrightarrow>
   NewRGBA (Rect_of 0 0 a b) = Some \<lparr>Pix = (\<lambda>p. RGBA 0 0 0 0), Rect = Rect_of 0 0 a b\<rparr>"
  by (simp add: NewRGBA_def Rect_of_def Dx_def Dy_def Pt_def)

lemma NewRGBA_canvas:
  assumes "raster img"
  shows "\<exists>im. NewRGBA (Rect_of 0 0 (int_of_float64 env (real_of_int (Dx (Bounds img))))
                 (int_of_float64 env (real_of_int (Dy (Bounds img))))) = Some im"
proof -
  have a: "int_of_float64 env (real_of_int (Dx (Bounds img))) = Dx (Bounds img)"
          "int_of_float64 env (real_of_int (Dy (Bounds img))) = Dy (Bounds img)"
    using assms by (simp_all add: raster_def int_of_float64_of_int)
  show ?thesis
    using assms by (simp add: a raster_def NewRGBA_Rect_of)
qed

lemma CreateImage_font_loaded:
  assumes "raster img" and "gg_LoadFontFace env (Font t) (Size t) = Some fnt"
    and "\<And>call. gg_DrawStringAnchored env call \<noteq> None"
  shows "\<exists>textImage. CreateImage env t (real_of_int (Dx (Bounds img))) (real_of_int (Dy (Bounds img))) = Inr textImage"
proof -
  obtain im where "NewRGBA (Rect_of 0 0 (int_of_float64 env (real_of_int (Dx (Bounds img))))
                     (int_of_float64 env (real_of_int (Dy (Bounds img))))) = Some im"
    using NewRGBA_canvas [OF assms(1), of env] by blast
  then show ?thesis
    using assms(2) assms(3)
    by (auto simp add: CreateImage_def Let_def split: option.splits)
qed

lemma CreateImage_font_missing:
  assumes "raster img" and "gg_LoadFontFace env (Font t) (Size t) = None"
  shows "CreateImage env t (real_of_int (Dx (Bounds img))) (real_of_int (Dy (Bounds img))) = Inl (FontLoadFailure (Font t))"
  using NewRGBA_canvas [OF assms(1), of env] assms(2)
  by (auto simp add: CreateImage_def Let_def)

lemma uint8_of_zero: "uint8_of_float64 env 0 = 0"
  by (simp add: uint8_of_float64_def trunc_def)

section \<open>Facts about the operations\<close>

lemma raster_blue_base: "raster blue_base"
  by (simp add: raster_def blue_base_def Rect_of_def Dx_def Dy_def Pt_def ZP_def)


lemma NewRGBA_blue_base:
  "NewRGBA (Bounds blue_base) = Some \<lparr>Pix = (\<lambda>p. RGBA 0 0 0 0), Rect = Bounds blue_base\<rparr>"
  by (rule NewRGBA_raster) (rule raster_blue_base)

lemma sample_png: "png_Decode (sample_env a b c) pngHeader = Some red_mark"
  by (simp add: png_Decode_def sample_env_def pngHeader_def)

lemma RGBA_copy_RGBA_Image:
  assumes "\<And>p. \<not> Point_In p (Rect im) \<Longrightarrow> Pix im p = RGBA 0 0 0 0"
  shows "RGBA_copy (RGBA_Image im) = im"
proof -
  have c: "RGBAModel_Convert (RGBA_RGBA c) = c" for c
    by (cases c) (simp add: narrow_widen)
  have "Pix (RGBA_copy (RGBA_Image im)) p = Pix im p" for p
    using assms [of p] by (simp add: RGBA_copy_def RGBA_Image_def c)
  then have "Pix (RGBA_copy (RGBA_Image im)) = Pix im" by (rule ext)
  moreover have "Rect (RGBA_copy (RGBA_Image im)) = Rect im"
    by (simp add: RGBA_copy_def RGBA_Image_def)
  ultimately show ?thesis by (rule image_RGBA.equality) simp
qed

lemma uint_of_float64_floor:
  "0 \<le> x \<Longrightarrow> x < 2 ^ 64 \<Longrightarrow> uint_of_float64 env x = nat \<lfloor>x\<rfloor>"
  by (simp add: uint_of_float64_def trunc_def floor_less_iff)

lemma go_division_truncates: "(- 3 :: int) sdiv 2 = - 1 \<and> (- 3 :: int) div 2 = - 2"
  by (simp add: signed_divide_int_def)

lemma ApplyToImage_decoded:
  assumes "Path w \<noteq> []" and "NewRGBA (Bounds baseImage) = Some new"
    and "os_Open env (Path w) = Some file" and "png_Decode env file = Some decoded"
    and "(if Scale w \<noteq> 1
          then resize_Resize env
                 (uint_of_float64 env (real_of_int (Dx (Bounds decoded)) * Scale w))
                 (uint_of_float64 env (real_of_int (Dy (Bounds decoded)) * Scale w))
                 decoded Bilinear
          else Some decoded) = Some wm"
  shows "ApplyToImage env w baseImage =
           Inr (Draw (Draw new (Bounds baseImage) baseImage ZP Over)
                  (Rectangle_Add (Bounds wm)
                     (Pt ((Dx (Bounds baseImage) - Dx (Bounds wm)) sdiv 2)
                         ((Dy (Bounds baseImage) - Dy (Bounds wm)) sdiv 2)))
                  wm ZP Over)"
proof (cases "Scale w \<noteq> 1")
  case True
  then show ?thesis
    using assms by (simp add: ApplyToImage_def Let_def Pt_def)
next
  case False
  then show ?thesis
    using assms by (simp add: ApplyToImage_def Let_def Pt_def)
qed


lemma CreateImage_passes_angle:
  assumes "CreateImage env t width height = Inr img"
  shows "\<exists>dc fnt. gg_DrawStringAnchored env
           \<lparr>canvas = dc, colour = Color t, face = fnt,
            rotate_angle = - Rotate t * (3.14 / 180), rotate_about = (width / 2, height / 2),
            str = Text t, anchor_at = (width / 2, height / 2), anchor_frac = (0.5, 0.5)\<rparr> = Some img"
  using assms
  by (auto simp add: CreateImage_def CreateImage_angle_def Let_def split: option.splits)

lemma CreateImage_angle_iff:
  "CreateImage_angle t = - Rotate t * (pi / 180) \<longleftrightarrow> Rotate t = 0"
  using pi_gt_3141 by (auto simp add: CreateImage_angle_def)

lemma sample_text_layer:
  "CreateImage (sample_env True a b) textWatermark 800 600 =
     Inr \<lparr>Pix = (\<lambda>p. if Point_In p (Rect_of 0 0 800 600) then RGBA 239 250 23 255 else RGBA 0 0 0 0),
          Rect = Rect_of 0 0 800 600\<rparr>"
proof -
  let ?im = "\<lparr>Pix = (\<lambda>p. RGBA 0 0 0 0), Rect = Rect_of 0 0 800 600\<rparr>"
  have n: "NewRGBA (Rect_of 0 0 800 600) = Some ?im"
    by (rule NewRGBA_Rect_of) simp_all
  have c: "Draw ?im (Rect_of 0 0 800 600) (Uniform (RGBA64 0 0 0 0)) ZP Src = ?im"
  proof -
    have "Pix (Draw ?im (Rect_of 0 0 800 600) (Uniform (RGBA64 0 0 0 0)) ZP Src) p = RGBA 0 0 0 0" for p
      by (simp add: Draw_def Pix_DrawMask Uniform_def src_channel_def)
    then have "Pix (Draw ?im (Rect_of 0 0 800 600) (Uniform (RGBA64 0 0 0 0)) ZP Src) = Pix ?im"
      by auto
    moreover have "Rect (Draw ?im (Rect_of 0 0 800 600) (Uniform (RGBA64 0 0 0 0)) ZP Src) = Rect ?im"
      by (simp add: Rect_Draw)
    ultimately show ?thesis by (rule image_RGBA.equality) simp
  qed
  show ?thesis
    by (simp add: CreateImage_def int_of_float64_def trunc_def n c sample_env_def textWatermark_def
          cong: if_cong)
qed

text \<open>
  The mask at work in the sample world: with the opacity 0.6 of the handler the mask has alpha
  \<open>uint8(255 \<times> 0.6) = 153\<close> and the text layer shows through; with opacity 0 the pixel is the
  base's.
\<close>

lemma opacity_shows:
  "pixel_at (CreateWatermarkedImage (sample_env True a b) textWatermark blue_base) (Pt 0 0) =
     Some (RGBA 143 150 116 255) \<and>
   pixel_at (CreateWatermarkedImage (sample_env True a b) (textWatermark\<lparr>Opacity := 0\<rparr>) blue_base)
     (Pt 0 0) = Some (RGBA 0 0 255 255)"
proof -
  have d: "real_of_int (Dx (Bounds blue_base)) = 800" "real_of_int (Dy (Bounds blue_base)) = 600"
    by (simp_all add: blue_base_def Rect_of_def Dx_def Dy_def Pt_def)
  have u: "uint8_of_float64 (sample_env True a b) (255 * Opacity textWatermark) = 153"
    by (simp add: uint8_of_float64_def trunc_def textWatermark_def)
  have i: "Point_In (Pt 0 0) (Bounds blue_base)" "Point_In (Pt 0 0) (Rect_of 0 0 800 600)"
    by (simp_all add: blue_base_def Rect_of_def Point_In_def Pt_def)
  have c: "Pix (RGBA_copy blue_base) (Pt 0 0) = RGBA 0 0 255 255"
    using i by (simp add: RGBA_copy_def) (simp add: blue_base_def narrow_def)
  let ?layer = "\<lparr>Pix = (\<lambda>p. if Point_In p (Rect_of 0 0 800 600) then RGBA 239 250 23 255 else RGBA 0 0 0 0),
                 Rect = Rect_of 0 0 800 600\<rparr>"
  have b: "blend Over (RGBA 0 0 255 255) (RGBA_RGBA (RGBA 239 250 23 255)) (alpha_of (Alpha 153)) =
             RGBA 143 150 116 255"
    by (simp add: Alpha_def widen_def over_channel_def draw_m_def)
  have dr: "drawn (Bounds blue_base) (Bounds blue_base) (RGBA_Image ?layer) ZP
              (Some (Uniform (Alpha 153))) ZP (Pt 0 0)"
    by (simp add: drawn_def RGBA_Image_def Uniform_def blue_base_def Rect_of_def Point_In_def
          Point_Add_def Point_Sub_def ZP_def Pt_def)
  have at: "At (RGBA_Image ?layer) (Point_Add ZP (Point_Sub (Pt 0 0) (Min_pt (Bounds blue_base)))) =
              RGBA_RGBA (RGBA 239 250 23 255)"
    by (simp add: RGBA_Image_def blue_base_def Rect_of_def Point_In_def Point_Add_def Point_Sub_def
          ZP_def Pt_def)
  let ?msk = "Some (Uniform (Alpha 153))"
  have cw: "CreateWatermarkedImage (sample_env True a b) textWatermark blue_base =
      Inr (DrawMask (RGBA_copy blue_base) (Bounds blue_base) (RGBA_Image ?layer) ZP ?msk ZP Over)"
    using sample_text_layer [of a b]
    by (simp add: CreateWatermarkedImage_def d NewRGBA_blue_base Draw_copy
          raster_Min [OF raster_blue_base] u RGBA_copy_def)
  have rc: "Rect (RGBA_copy blue_base) = Bounds blue_base"
    by (simp add: RGBA_copy_def)
  have ma: "mask_alpha ?msk q = alpha_of (Alpha 153)" for q
    by (simp add: mask_alpha_def Uniform_def)
  have "Pix (DrawMask (RGBA_copy blue_base) (Bounds blue_base) (RGBA_Image ?layer) ZP ?msk ZP Over) (Pt 0 0) =
      blend Over (Pix (RGBA_copy blue_base) (Pt 0 0))
        (At (RGBA_Image ?layer) (Point_Add ZP (Point_Sub (Pt 0 0) (Min_pt (Bounds blue_base)))))
        (mask_alpha ?msk (Point_Add ZP (Point_Sub (Pt 0 0) (Min_pt (Bounds blue_base)))))"
    using dr by (simp only: Pix_DrawMask rc if_True)
  also have "\<dots> = RGBA 143 150 116 255"
    by (simp only: c at ma b)
  finally have one: "pixel_at (CreateWatermarkedImage (sample_env True a b) textWatermark blue_base) (Pt 0 0) =
     Some (RGBA 143 150 116 255)"
    by (simp add: cw pixel_at_def)
  have o: "Opacity (textWatermark\<lparr>Opacity := 0\<rparr>) = 0" by simp
  have r: "\<And>call. gg_DrawStringAnchored (sample_env True a b) call \<noteq> None"
    and f: "gg_LoadFontFace (sample_env True a b) (Font (textWatermark\<lparr>Opacity := 0\<rparr>))
              (Size (textWatermark\<lparr>Opacity := 0\<rparr>)) = Some ()"
    by (simp_all add: sample_env_def)
  obtain textImage where
    t: "CreateImage (sample_env True a b) (textWatermark\<lparr>Opacity := 0\<rparr>)
          (real_of_int (Dx (Bounds blue_base))) (real_of_int (Dy (Bounds blue_base))) = Inr textImage"
    using CreateImage_font_loaded [OF raster_blue_base f r] by blast
  have two: "pixel_at (CreateWatermarkedImage (sample_env True a b) (textWatermark\<lparr>Opacity := 0\<rparr>) blue_base)
     (Pt 0 0) = Some (RGBA 0 0 255 255)"
    using t c
    by (simp add: CreateWatermarkedImage_def NewRGBA_blue_base Draw_copy
          raster_Min [OF raster_blue_base] uint8_of_zero DrawMask_transparent pixel_at_def)
  show ?thesis using one two by simp
qed

subsection \<open>The handler, failure by failure\<close>

text \<open>
  A missing or undecodable file and a font that does not load leave the handler through a
  panic.  A template that does not parse, or that fails before it has written anything, is
  answered with status 500 and a fixed message.  A template that fails after it has written
  output is not: the status is already 200.
\<close>

lemma handler_missing_file:
  "os_Open env ''image.jpg'' = None \<Longrightarrow>
   handleWatermarkedImages env w = Inl (ResourceNotFound ''image.jpg'')"
  by (simp add: handleWatermarkedImages_def)

lemma handler_undecodable_file:
  "os_Open env ''image.jpg'' = Some file \<Longrightarrow> image_Decode env file = None \<Longrightarrow>
   handleWatermarkedImages env w = Inl (DecodeFailure ''image.jpg'')"
  by (simp add: handleWatermarkedImages_def)

lemma handler_missing_watermark:
  assumes "os_Open env ''image.jpg'' = Some file" and "image_Decode env file = Some img"
    and "raster img" and "os_Open env ''FG-copyright-mini.png'' = None"
  shows "handleWatermarkedImages env w = Inl (ResourceNotFound ''FG-copyright-mini.png'')"
proof -
  have "ApplyToImage env imageWatermark img = Inl (ResourceNotFound ''FG-copyright-mini.png'')"
    using assms(4) NewRGBA_raster [OF assms(3)]
    by (simp add: ApplyToImage_def imageWatermark_def)
  then show ?thesis using assms(1,2) by (simp add: handleWatermarkedImages_def)
qed

lemma handler_font_failure:
  assumes "os_Open env ''image.jpg'' = Some file1" and "image_Decode env file1 = Some img1"
    and "ApplyToImage env imageWatermark img1 = Inr marked1"
    and "os_Open env ''zerkalo-ozera.jpg'' = Some file2" and "image_Decode env file2 = Some img2"
    and "raster img2"
    and "gg_LoadFontFace env (Font textWatermark) (Size textWatermark) = None"
  shows "handleWatermarkedImages env w = Inl (FontLoadFailure ''Nunito-Medium.ttf'')"
proof -
  have "CreateWatermarkedImage env textWatermark img2 = Inl (FontLoadFailure (Font textWatermark))"
    using CreateImage_font_missing [OF assms(6) assms(7)]
    by (simp add: CreateWatermarkedImage_def)
  then show ?thesis
    using assms(1-5) by (simp add: handleWatermarkedImages_def textWatermark_def)
qed

lemma handler_renders:
  assumes "os_Open env ''image.jpg'' = Some file1" and "image_Decode env file1 = Some img1"
    and "ApplyToImage env imageWatermark img1 = Inr marked1"
    and "os_Open env ''zerkalo-ozera.jpg'' = Some file2" and "image_Decode env file2 = Some img2"
    and "CreateWatermarkedImage env textWatermark img2 = Inr marked2"
  shows "handleWatermarkedImages env w =
           Inr (render_template env (encodeImageToBase64 env (RGBA_Image marked1) ''jpeg'')
                  (encodeImageToBase64 env (RGBA_Image marked2) ''jpeg'') w)"
  using assms by (simp add: handleWatermarkedImages_def)

lemma render_template_load_failure:
  assumes "template_ParseFiles env ''templates/images.html'' = None" and "wroteHeader w = None"
  shows "status_sent (render_template env b1 b2 w) = 500 \<and>
         body (render_template env b1 b2 w) = body w @ ''Error loading template'' @ [CHR 0x0A]"
  using assms
  by (simp add: render_template_def http_Error_def Write_def WriteHeader_def Header_Set_def
        status_sent_def StatusInternalServerError_def)

lemma render_template_exec_failure_clean:
  assumes "template_ParseFiles env ''templates/images.html'' = Some tmpl"
    and "template_Execute env tmpl \<lparr>Image1 = b1, Image2 = b2\<rparr> = ([], True)"
    and "wroteHeader w = None"
  shows "status_sent (render_template env b1 b2 w) = 500 \<and>
         body (render_template env b1 b2 w) = body w @ ''Error executing template'' @ [CHR 0x0A]"
  using assms
  by (simp add: render_template_def http_Error_def Write_def WriteHeader_def Header_Set_def
        status_sent_def StatusInternalServerError_def)

lemma wroteHeader_Write: "wroteHeader (Write c w) \<noteq> None"
  by (simp add: Write_def WriteHeader_def split: option.splits)

lemma status_sent_Write:
  "wroteHeader w = None \<Longrightarrow> status_sent (Write c w) = 200"
  by (simp add: Write_def WriteHeader_def status_sent_def)

lemma status_sent_Write_again:
  "wroteHeader w \<noteq> None \<Longrightarrow> status_sent (Write c w) = status_sent w"
  by (auto simp add: Write_def WriteHeader_def status_sent_def split: option.splits)

lemma status_sent_fold_Write:
  "wroteHeader w \<noteq> None \<Longrightarrow> status_sent (fold Write cs w) = status_sent w \<and> wroteHeader (fold Write cs w) \<noteq> None"
proof (induction cs arbitrary: w)
  case Nil
  then show ?case by simp
next
  case (Cons c cs)
  have "status_sent (fold Write cs (Write c w)) = status_sent (Write c w) \<and>
        wroteHeader (fold Write cs (Write c w)) \<noteq> None"
    by (rule Cons.IH) (rule wroteHeader_Write)
  then show ?case using Cons.prems by (simp add: status_sent_Write_again)
qed

lemma status_sent_http_Error_late:
  "wroteHeader w \<noteq> None \<Longrightarrow> status_sent (http_Error msg code w) = status_sent w"
  by (auto simp add: http_Error_def Write_def WriteHeader_def Header_Set_def status_sent_def
        split: option.splits)

lemma render_template_exec_failure_partial:
  assumes "template_ParseFiles env ''templates/images.html'' = Some tmpl"
    and "template_Execute env tmpl \<lparr>Image1 = b1, Image2 = b2\<rparr> = (c # cs, True)"
    and "wroteHeader w = None"
  shows "status_sent (render_template env b1 b2 w) = 200"
proof -
  let ?w1 = "Header_Set ''Content-Type'' ''text/html; charset=utf-8'' w"
  have n: "wroteHeader ?w1 = None" using assms(3) by (simp add: Header_Set_def)
  have "status_sent (fold Write cs (Write c ?w1)) = 200 \<and> wroteHeader (fold Write cs (Write c ?w1)) \<noteq> None"
    using status_sent_fold_Write [OF wroteHeader_Write, of cs c ?w1] status_sent_Write [OF n, of c]
    by simp
  then show ?thesis
    using assms(1,2) by (simp add: render_template_def status_sent_http_Error_late)
qed

section \<open>The claims\<close>

text \<open>
  C1 says that the angle handed to \<^verbatim>\<open>RotateAbout\<close> is minus the configured rotation times
  \<open>\<pi>/180\<close>.  Line 50 multiplies by \<^verbatim>\<open>3.14 / 180\<close> instead.  For the text watermark of the handler
  (rotation \<open>-29.5\<close> degrees) the angle is \<open>9263/18000\<close>, which is not \<open>29.5 \<pi> / 180\<close> and falls
  short of it by more than one ten-thousandth of a radian.
\<close>

theorem CreateImage_angle_not_radians:
  "CreateImage_angle textWatermark = 9263 / 18000 \<and>
   CreateImage_angle textWatermark \<noteq> - Rotate textWatermark * (pi / 180) \<and>
   CreateImage_angle textWatermark + 1 / 10000 < - Rotate textWatermark * (pi / 180)"
proof -
  have a: "CreateImage_angle textWatermark = 9263 / 18000"
    by (simp add: CreateImage_angle_def textWatermark_def)
  have r: "- Rotate textWatermark * (pi / 180) = 59 * pi / 360"
    by (simp add: textWatermark_def)
  have "9263 / 18000 + 1 / 10000 < 59 * pi / 360"
    using pi_gt_3141 by simp
  then show ?thesis unfolding a r by simp
qed

text \<open>
  C2: the result of \<^verbatim>\<open>ApplyToImage\<close>, a panic included, depends on the watermark through \<^verbatim>\<open>Path\<close>
  and \<^verbatim>\<open>Scale\<close> only.  Two watermarks that agree on both give the same result on the same base
  image in the same environment, whatever their opacity, colour, font, size and rotation.
\<close>

theorem ApplyToImage_ignores_style:
  "Path w1 = Path w2 \<Longrightarrow> Scale w1 = Scale w2 \<Longrightarrow>
   ApplyToImage env w1 baseImage = ApplyToImage env w2 baseImage"
  unfolding ApplyToImage_def by (simp only:)

theorem ApplyToImage_ignores_style_witness:
  "Path imageWatermark = Path (imageWatermark\<lparr>Opacity := 0, Color := Some (Alpha 255), Font := ''x.ttf'', Size := 12, Rotate := 45\<rparr>) \<and>
   Scale imageWatermark = Scale (imageWatermark\<lparr>Opacity := 0, Color := Some (Alpha 255), Font := ''x.ttf'', Size := 12, Rotate := 45\<rparr>) \<and>
   Opacity imageWatermark \<noteq> Opacity (imageWatermark\<lparr>Opacity := 0, Color := Some (Alpha 255), Font := ''x.ttf'', Size := 12, Rotate := 45\<rparr>) \<and>
   ApplyToImage (sample_env True True ([], False)) imageWatermark blue_base =
   ApplyToImage (sample_env True True ([], False))
     (imageWatermark\<lparr>Opacity := 0, Color := Some (Alpha 255), Font := ''x.ttf'', Size := 12, Rotate := 45\<rparr>) blue_base"
  using ApplyToImage_ignores_style
    [of imageWatermark "imageWatermark\<lparr>Opacity := 0, Color := Some (Alpha 255), Font := ''x.ttf'', Size := 12, Rotate := 45\<rparr>"
        "sample_env True True ([], False)" blue_base]
  by (simp add: imageWatermark_def)

text \<open>
  C3: for every image and every format tag other than \<^verbatim>\<open>jpeg\<close> and \<^verbatim>\<open>png\<close> the buffer of
  \<^verbatim>\<open>encodeImageToBase64\<close> stays empty and the function returns the base64 text of no bytes,
  the empty string; the tag \<^verbatim>\<open>gif\<close> in particular leaves a buffer of length zero.
\<close>

theorem encodeImageToBase64_other_tag:
  "(imgType \<noteq> ''jpeg'' \<and> imgType \<noteq> ''png'' \<longrightarrow>
      encodeImage_buff env img imgType = [] \<and> encodeImageToBase64 env img imgType = []) \<and>
   length (encodeImage_buff env img ''gif'') = 0 \<and> encodeImageToBase64 env img ''gif'' = []"
  by (simp add: encodeImage_buff_def encodeImageToBase64_def)

theorem encodeImageToBase64_other_tag_witness:
  "''bmp'' \<noteq> ''jpeg'' \<and> ''bmp'' \<noteq> ''png'' \<and>
   encodeImage_buff (sample_env True True ([], False)) blue_base ''bmp'' = [] \<and>
   encodeImageToBase64 (sample_env True True ([], False)) blue_base ''bmp'' = []"
  using encodeImageToBase64_other_tag [of "''bmp''" "sample_env True True ([], False)" blue_base]
  by simp











text \<open>
  C8 says that a failure to execute the template, like a failure to load it, is turned into
  a generic 500 response.  \<^verbatim>\<open>Execute\<close> writes into the response as it goes; when it fails
  after writing, the status 200 is already out, the \<^verbatim>\<open>WriteHeader(500)\<close> of \<^verbatim>\<open>http.Error\<close> is
  ignored and the fixed message is appended to the partial page.
\<close>

theorem handler_partial_output_then_failure:
  "handleWatermarkedImages (sample_env True True ([''<html>''], True)) new_response =
     Inr \<lparr>Header = [(''X-Content-Type-Options'', ''nosniff''),
                    (''Content-Type'', ''text/plain; charset=utf-8'')],
          wroteHeader = Some (200, [(''Content-Type'', ''text/html; charset=utf-8'')]),
          body = ''<html>Error executing template'' @ [CHR 0x0A]\<rparr> \<and>
   status_sent \<lparr>Header = [(''X-Content-Type-Options'', ''nosniff''),
                    (''Content-Type'', ''text/plain; charset=utf-8'')],
          wroteHeader = Some (200, [(''Content-Type'', ''text/html; charset=utf-8'')]),
          body = ''<html>Error executing template'' @ [CHR 0x0A]\<rparr> = 200"
proof -
  let ?env = "sample_env True True ([''<html>''], True)"
  have o: "os_Open ?env ''image.jpg'' = Some jpegMagic"
          "os_Open ?env ''zerkalo-ozera.jpg'' = Some jpegMagic"
    by (simp_all add: sample_env_def)
  have d: "image_Decode ?env jpegMagic = Some blue_base"
    by (simp add: image_Decode_def sample_env_def jpegMagic_def)
  have p1: "Path imageWatermark \<noteq> []" and o1: "os_Open ?env (Path imageWatermark) = Some pngHeader"
    and s1: "Scale imageWatermark = 1"
    by (simp_all add: imageWatermark_def sample_env_def)
  obtain marked1 where m1: "ApplyToImage ?env imageWatermark blue_base = Inr marked1"
    using ApplyToImage_decoded [OF p1 NewRGBA_blue_base o1 sample_png, of red_mark] s1 by auto
  have f: "gg_LoadFontFace ?env (Font textWatermark) (Size textWatermark) = Some ()"
    and r: "\<And>call. gg_DrawStringAnchored ?env call \<noteq> None"
    by (simp_all add: sample_env_def)
  obtain textImage where
    t: "CreateImage ?env textWatermark (real_of_int (Dx (Bounds blue_base))) (real_of_int (Dy (Bounds blue_base))) = Inr textImage"
    using CreateImage_font_loaded [OF raster_blue_base f r] by blast
  obtain marked2 where m2: "CreateWatermarkedImage ?env textWatermark blue_base = Inr marked2"
    by (simp add: CreateWatermarkedImage_def t NewRGBA_blue_base Let_def)
  have "render_template ?env b1 b2 new_response =
     \<lparr>Header = [(''X-Content-Type-Options'', ''nosniff''),
                    (''Content-Type'', ''text/plain; charset=utf-8'')],
          wroteHeader = Some (200, [(''Content-Type'', ''text/html; charset=utf-8'')]),
          body = ''<html>Error executing template'' @ [CHR 0x0A]\<rparr>" for b1 b2
    by (simp add: render_template_def sample_env_def new_response_def http_Error_def Write_def
          WriteHeader_def Header_Set_def StatusInternalServerError_def)
  then show ?thesis
    using handler_renders [OF o(1) d m1 o(2) d m2, of new_response]
    by (simp add: status_sent_def)
qed

text \<open>
  C9: \<^verbatim>\<open>ApplyToImage\<close> decodes the watermark file with \<^verbatim>\<open>png.Decode\<close>.  A file that exists but
  does not start with the PNG signature, a valid JPEG for one, makes the call panic with a
  decode failure, while \<^verbatim>\<open>image.Decode\<close>, which the handler uses for the base images, accepts
  a JPEG as well as a PNG.  The same JPEG bytes served as base image and as watermark file
  get the handler past the base image and stop it at the watermark.
\<close>

theorem watermark_must_be_png:
  "(Path w \<noteq> [] \<and> NewRGBA (Bounds baseImage) = Some new \<and> os_Open env (Path w) = Some file \<and>
    take 8 file \<noteq> pngHeader \<longrightarrow>
      ApplyToImage env w baseImage = Inl (DecodeFailure (Path w))) \<and>
   (take 2 file = jpegMagic \<longrightarrow>
      take 8 file \<noteq> pngHeader \<and> image_Decode env file = jpeg_Decode env file) \<and>
   (take 8 file = pngHeader \<longrightarrow> image_Decode env file = png_Decode env file) \<and>
   (take 2 file = jpegMagic \<and> jpeg_Decode env file = Some img \<and> NewRGBA (Bounds img) = Some new \<and>
    os_Open env ''image.jpg'' = Some file \<and> os_Open env ''FG-copyright-mini.png'' = Some file \<longrightarrow>
      handleWatermarkedImages env rw = Inl (DecodeFailure ''FG-copyright-mini.png''))"
proof -
  have neq: "take 8 f \<noteq> pngHeader" if "take 2 f = jpegMagic" for f :: "uint8 list"
  proof
    assume "take 8 f = pngHeader"
    then have "take 2 (take 8 f) = take 2 pngHeader" by simp
    then have "take 2 f = take 2 pngHeader" by simp
    with that show False by (simp add: pngHeader_def jpegMagic_def)
  qed
  have a: "ApplyToImage env w baseImage = Inl (DecodeFailure (Path w))"
    if "Path w \<noteq> []" "NewRGBA (Bounds baseImage) = Some new" "os_Open env (Path w) = Some file"
       "take 8 file \<noteq> pngHeader"
    for w :: "'z Watermark_scheme" and baseImage new
    using that by (simp add: ApplyToImage_def png_Decode_def)
  have b: "image_Decode env file = jpeg_Decode env file" if "take 2 file = jpegMagic"
    using that by (simp add: image_Decode_def)
  have c: "image_Decode env file = png_Decode env file" if "take 8 file = pngHeader"
    using that neq [of "file"] by (auto simp add: image_Decode_def png_Decode_def)
  have d: "handleWatermarkedImages env rw = Inl (DecodeFailure ''FG-copyright-mini.png'')"
    if "take 2 file = jpegMagic" "jpeg_Decode env file = Some img" "NewRGBA (Bounds img) = Some new"
       "os_Open env ''image.jpg'' = Some file" "os_Open env ''FG-copyright-mini.png'' = Some file"
  proof -
    have "ApplyToImage env imageWatermark img = Inl (DecodeFailure (Path imageWatermark))"
      using that neq [of "file"] by (intro a [of imageWatermark img new]) (simp_all add: imageWatermark_def)
    then show ?thesis
      using that b by (simp add: handleWatermarkedImages_def imageWatermark_def)
  qed
  show ?thesis using a b c d neq by blast
qed

theorem watermark_must_be_png_witness:
  "Path imageWatermark \<noteq> [] \<and>
   NewRGBA (Bounds blue_base) = Some \<lparr>Pix = (\<lambda>p. RGBA 0 0 0 0), Rect = Bounds blue_base\<rparr> \<and>
   os_Open ((sample_env True True ([], False))\<lparr>os_Open := (\<lambda>p. Some jpegMagic)\<rparr>) (Path imageWatermark) =
     Some jpegMagic \<and>
   take 8 jpegMagic \<noteq> pngHeader \<and> take 2 jpegMagic = jpegMagic \<and> take 8 pngHeader = pngHeader \<and>
   jpeg_Decode ((sample_env True True ([], False))\<lparr>os_Open := (\<lambda>p. Some jpegMagic)\<rparr>) jpegMagic =
     Some blue_base \<and>
   ApplyToImage ((sample_env True True ([], False))\<lparr>os_Open := (\<lambda>p. Some jpegMagic)\<rparr>)
     imageWatermark blue_base = Inl (DecodeFailure ''FG-copyright-mini.png'') \<and>
   image_Decode ((sample_env True True ([], False))\<lparr>os_Open := (\<lambda>p. Some jpegMagic)\<rparr>) jpegMagic =
     Some blue_base \<and>
   image_Decode (sample_env True True ([], False)) pngHeader = Some red_mark \<and>
   handleWatermarkedImages ((sample_env True True ([], False))\<lparr>os_Open := (\<lambda>p. Some jpegMagic)\<rparr>)
     new_response = Inl (DecodeFailure ''FG-copyright-mini.png'')"
proof -
  let ?env = "(sample_env True True ([], False))\<lparr>os_Open := (\<lambda>p. Some jpegMagic)\<rparr>"
  let ?new = "\<lparr>Pix = (\<lambda>p. RGBA 0 0 0 0), Rect = Bounds blue_base\<rparr>"
  have f: "Path imageWatermark \<noteq> []" "Path imageWatermark = ''FG-copyright-mini.png''"
          "os_Open ?env (Path imageWatermark) = Some jpegMagic"
          "take 8 jpegMagic \<noteq> pngHeader" "take 2 jpegMagic = jpegMagic" "take 8 pngHeader = pngHeader"
          "jpeg_Decode ?env jpegMagic = Some blue_base"
          "os_Open ?env ''image.jpg'' = Some jpegMagic"
          "os_Open ?env ''FG-copyright-mini.png'' = Some jpegMagic"
    by (simp_all add: imageWatermark_def sample_env_def jpegMagic_def pngHeader_def)
  show ?thesis
    using watermark_must_be_png [of imageWatermark blue_base ?new ?env jpegMagic blue_base new_response]
          watermark_must_be_png [of imageWatermark blue_base ?new "sample_env True True ([], False)" pngHeader blue_base new_response]
          f NewRGBA_blue_base sample_png
    by simp
qed

text \<open>
  C10: \<^verbatim>\<open>encodeImageToBase64\<close> does not look at the error an encoder returns.  Whatever bytes
  the encoder wrote, and whether or not it then failed, the function returns their base64
  text; the caller gets a string in either case.
\<close>

theorem encodeImageToBase64_drops_errors:
  "(jpeg_Encode env img = (bs, err) \<longrightarrow>
      encodeImageToBase64 env img ''jpeg'' = EncodeToString bs) \<and>
   (png_Encode env img = (bs, err) \<longrightarrow>
      encodeImageToBase64 env img ''png'' = EncodeToString bs)"
  by (simp add: encodeImage_buff_def encodeImageToBase64_def)

theorem encodeImageToBase64_drops_errors_witness:
  "jpeg_Encode (sample_env True True ([], False)) blue_base = ([0xFF, 0xD8, 0xFF], True) \<and>
   encodeImageToBase64 (sample_env True True ([], False)) blue_base ''jpeg'' = ''/9j/'' \<and>
   png_Encode (sample_env True True ([], False)) blue_base = (pngHeader, False) \<and>
   encodeImageToBase64 (sample_env True True ([], False)) blue_base ''png'' = EncodeToString pngHeader"
proof -
  have e: "EncodeToString [0xFF, 0xD8, 0xFF] = ''/9j/''"
    by (simp add: enc_char_def encodeStd_def)
  have j: "jpeg_Encode (sample_env True True ([], False)) blue_base = ([0xFF, 0xD8, 0xFF], True)"
    and p: "png_Encode (sample_env True True ([], False)) blue_base = (pngHeader, False)"
    by (simp_all add: sample_env_def)
  show ?thesis
    using encodeImageToBase64_drops_errors
            [of "sample_env True True ([], False)" blue_base "[0xFF, 0xD8, 0xFF]" True]
          encodeImageToBase64_drops_errors
            [of "sample_env True True ([], False)" blue_base pngHeader False]
          j p e
    by simp
qed

end
